theory Spec2Isabelle
  imports Complex_Main "HOL-Library.Log_Nat"
begin

section \<open>Python floats: finite binary64 values with correctly rounded arithmetic\<close>

text \<open>
  A finite Python \<^verbatim>\<open>float\<close> is an IEEE-754 binary64 number: a rational with a
  53-bit significand. The model keeps the exact rational value and rounds the exact
  result of every operation to the nearest binary64 value, ties to the even significand,
  as the hardware does. The exponent is left unbounded, which agrees with binary64
  wherever nothing overflows and no inexact result is subnormal: the quantities of this
  service (shares in [0,1], the literals of the source, clock readings, latencies) are far
  from overflow, and a difference of two binary64 numbers is a multiple of the smaller
  operand's unit in the last place, so it never lands strictly between two subnormal
  values. Signed zero is not distinguished.
\<close>

type_synonym float64 = rat

definition ilog2 :: "rat \<Rightarrow> int" where
  \<comment> \<open>the binary exponent of a nonzero rational: \<open>2 powi e \<le> \<bar>x\<bar> < 2 powi (e + 1)\<close>\<close>
  "ilog2 x = (case quotient_of \<bar>x\<bar> of (p, q) \<Rightarrow>
     (let d = bitlen p - bitlen q in if 2 powi d \<le> \<bar>x\<bar> then d else d - 1))"

definition round_half_even :: "rat \<Rightarrow> int" where
  "round_half_even y = (let f = \<lfloor>y\<rfloor>; r = y - of_int f in
     if r < 1 / 2 then f else if 1 / 2 < r then f + 1 else if even f then f else f + 1)"

definition rnd :: "rat \<Rightarrow> float64" where
  \<comment> \<open>round to nearest binary64, ties to even: 53 significant bits\<close>
  "rnd x = (if x = 0 then 0 else
     (let e = ilog2 x - 52 in of_int (round_half_even (x / 2 powi e)) * 2 powi e))"

definition is_float64 :: "rat \<Rightarrow> bool" where
  "is_float64 x = (rnd x = x)"

definition flit :: "rat \<Rightarrow> float64" where
  \<comment> \<open>a decimal literal of the source (\<^verbatim>\<open>0.2\<close>) or of a JSON body, read as a float\<close>
  "flit d = rnd d"

definition fsub :: "float64 \<Rightarrow> float64 \<Rightarrow> float64" where
  "fsub a b = rnd (a - b)"

definition fmul :: "float64 \<Rightarrow> float64 \<Rightarrow> float64" where
  "fmul a b = rnd (a * b)"

definition py_min :: "float64 \<Rightarrow> float64 \<Rightarrow> float64" where
  \<comment> \<open>Python's \<^verbatim>\<open>min(a, b)\<close>: the later argument wins only when strictly smaller\<close>
  "py_min a b = (if b < a then b else a)"

definition py_max :: "float64 \<Rightarrow> float64 \<Rightarrow> float64" where
  \<comment> \<open>Python's \<^verbatim>\<open>max(a, b)\<close>: the later argument wins only when strictly greater\<close>
  "py_max a b = (if a < b then b else a)"

text \<open>
  A Python \<^verbatim>\<open>float\<close> that does not come through request validation may also be an
  infinity or a NaN; every ordered comparison with a NaN is false.
\<close>

datatype pyfloat = Finite float64 | PosInf | NegInf | NaN

fun pf_lt :: "pyfloat \<Rightarrow> pyfloat \<Rightarrow> bool" where
  "pf_lt NaN _ = False"
| "pf_lt _ NaN = False"
| "pf_lt (Finite a) (Finite b) = (a < b)"
| "pf_lt _ NegInf = False"
| "pf_lt NegInf _ = True"
| "pf_lt PosInf _ = False"
| "pf_lt _ PosInf = True"

fun pf_le :: "pyfloat \<Rightarrow> pyfloat \<Rightarrow> bool" where
  "pf_le NaN _ = False"
| "pf_le _ NaN = False"
| "pf_le (Finite a) (Finite b) = (a \<le> b)"
| "pf_le NegInf _ = True"
| "pf_le _ PosInf = True"
| "pf_le _ NegInf = False"
| "pf_le PosInf _ = False"

definition pf_min :: "pyfloat \<Rightarrow> pyfloat \<Rightarrow> pyfloat" where
  "pf_min a b = (if pf_lt b a then b else a)"

definition pf_max :: "pyfloat \<Rightarrow> pyfloat \<Rightarrow> pyfloat" where
  "pf_max a b = (if pf_lt a b then b else a)"

section \<open>Request and response models\<close>

text \<open>
  \<^verbatim>\<open>QualityRequest\<close>: the pydantic model validates \<open>ge=0\<close> on the integer fields
  and \<open>ge=0.0, le=1.0\<close> on \<open>max_missing_share\<close> before the endpoint runs, so the
  share is a finite float. Python integers are unbounded.
\<close>

record quality_request =
  n_rows :: int
  n_cols :: int
  max_missing_share :: float64
  numeric_cols :: int
  categorical_cols :: int

definition valid_request :: "quality_request \<Rightarrow> bool" where
  "valid_request req = (0 \<le> n_rows req \<and> 0 \<le> n_cols req
     \<and> 0 \<le> max_missing_share req \<and> max_missing_share req \<le> 1
     \<and> is_float64 (max_missing_share req)
     \<and> 0 \<le> numeric_cols req \<and> 0 \<le> categorical_cols req)"

record quality_response =
  ok_for_model :: bool
  quality_score :: pyfloat
  message :: string
  latency_ms :: float64
  flags :: "(string \<rightharpoonup> bool) option"
  dataset_shape :: "(string \<rightharpoonup> int) option"

record quality_flags_response =
  flags_only :: "string \<rightharpoonup> bool"

section \<open>Structured logging\<close>

text \<open>The attributes \<^verbatim>\<open>log_request\<close> sets on the \<^verbatim>\<open>LogRecord\<close> it hands to the logger.\<close>

record log_record =
  endpoint :: string
  status :: string
  rec_latency_ms :: float64
  rec_ok_for_model :: "bool option"
  rec_n_rows :: "int option"
  rec_n_cols :: "int option"
  request_id :: string

datatype json = JStr string | JFloat float64 | JInt int | JBool bool | JNone

fun opt_json :: "('a \<Rightarrow> json) \<Rightarrow> 'a option \<Rightarrow> json" where
  "opt_json f None = JNone"
| "opt_json f (Some x) = f x"

definition format_record :: "string \<Rightarrow> log_record \<Rightarrow> (string \<times> json) list" where
  \<comment> \<open>\<^verbatim>\<open>JSONFormatter.format\<close>: the dictionary handed to \<^verbatim>\<open>json.dumps\<close>, in key order;
      the first argument is the timestamp read while formatting. \<^verbatim>\<open>log_request\<close> sets every
      attribute, so the defaults of \<^verbatim>\<open>getattr\<close> are never taken\<close>
  "format_record timestamp r =
     (let log_data =
        [(''endpoint'', JStr (endpoint r)),
         (''status'', JStr (status r)),
         (''latency_ms'', JFloat (rec_latency_ms r)),
         (''ok_for_model'', opt_json JBool (rec_ok_for_model r)),
         (''n_rows'', opt_json JInt (rec_n_rows r)),
         (''n_cols'', opt_json JInt (rec_n_cols r)),
         (''timestamp'', JStr (timestamp @ ''Z'')),
         (''request_id'', JStr (request_id r))]
      in filter (\<lambda>(k, v). v \<noteq> JNone) log_data)"

text \<open>
  The state around one request: the monotonic clock \<^verbatim>\<open>perf_counter\<close> as the sequence of
  its successive readings, the request id bound in the context variable, the records
  handled by the logger so far (each handler formats every one of them), and the calls
  made to the parser and to the analysis functions. The clock never runs backwards, so a
  latency is never negative; with the clamp of the score, this is why the checks of the
  response model (\<open>latency_ms >= 0\<close>, \<open>0 <= quality_score <= 1\<close>) cannot fail and are
  not modelled.
\<close>

datatype call = ReadCsv | SummarizeDataset | MissingTable | ComputeQualityFlags

record world =
  clock :: "nat \<Rightarrow> float64"
  ticks :: nat
  request_id_var :: string
  handled :: "log_record list"
  calls :: "call list"

definition perf_counter :: "world \<Rightarrow> float64 \<times> world" where
  "perf_counter w = (clock w (ticks w), w\<lparr>ticks := Suc (ticks w)\<rparr>)"

definition log_request ::
  "string \<Rightarrow> string \<Rightarrow> float64 \<Rightarrow> bool option \<Rightarrow> int option \<Rightarrow> int option \<Rightarrow> world \<Rightarrow> world" where
  "log_request ep st lat ok nr nc w =
     w\<lparr>handled := handled w @
       [\<lparr>endpoint = ep, status = st, rec_latency_ms = lat, rec_ok_for_model = ok,
         rec_n_rows = nr, rec_n_cols = nc, request_id = request_id_var w\<rparr>]\<rparr>"

section \<open>The endpoint \<^verbatim>\<open>/quality\<close>\<close>

definition quality_msg_ok :: string where
  "quality_msg_ok =
    [CHR 0xD0, CHR 0x94, CHR 0xD0, CHR 0xB0, CHR 0xD0, CHR 0xBD, CHR 0xD0, CHR 0xBD, CHR 0xD1,
     CHR 0x8B, CHR 0xD1, CHR 0x85, CHR 0x20, CHR 0xD0, CHR 0xB4, CHR 0xD0, CHR 0xBE, CHR 0xD1,
     CHR 0x81, CHR 0xD1, CHR 0x82, CHR 0xD0, CHR 0xB0, CHR 0xD1, CHR 0x82, CHR 0xD0, CHR 0xBE,
     CHR 0xD1, CHR 0x87, CHR 0xD0, CHR 0xBD, CHR 0xD0, CHR 0xBE, CHR 0x2C, CHR 0x20, CHR 0xD0,
     CHR 0xBC, CHR 0xD0, CHR 0xBE, CHR 0xD0, CHR 0xB4, CHR 0xD0, CHR 0xB5, CHR 0xD0, CHR 0xBB,
     CHR 0xD1, CHR 0x8C, CHR 0x20, CHR 0xD0, CHR 0xBC, CHR 0xD0, CHR 0xBE, CHR 0xD0, CHR 0xB6,
     CHR 0xD0, CHR 0xBD, CHR 0xD0, CHR 0xBE, CHR 0x20, CHR 0xD0, CHR 0xBE, CHR 0xD0, CHR 0xB1,
     CHR 0xD1, CHR 0x83, CHR 0xD1, CHR 0x87, CHR 0xD0, CHR 0xB0, CHR 0xD1, CHR 0x82, CHR 0xD1,
     CHR 0x8C, CHR 0x20, CHR 0x28, CHR 0xD0, CHR 0xBF, CHR 0xD0, CHR 0xBE, CHR 0x20, CHR 0xD1,
     CHR 0x82, CHR 0xD0, CHR 0xB5, CHR 0xD0, CHR 0xBA, CHR 0xD1, CHR 0x83, CHR 0xD1, CHR 0x89,
     CHR 0xD0, CHR 0xB8, CHR 0xD0, CHR 0xBC, CHR 0x20, CHR 0xD1, CHR 0x8D, CHR 0xD0, CHR 0xB2,
     CHR 0xD1, CHR 0x80, CHR 0xD0, CHR 0xB8, CHR 0xD1, CHR 0x81, CHR 0xD1, CHR 0x82, CHR 0xD0,
     CHR 0xB8, CHR 0xD0, CHR 0xBA, CHR 0xD0, CHR 0xB0, CHR 0xD0, CHR 0xBC, CHR 0x29, CHR 0x2E]"

definition quality_msg_not_ok :: string where
  "quality_msg_not_ok =
    [CHR 0xD0, CHR 0x9A, CHR 0xD0, CHR 0xB0, CHR 0xD1, CHR 0x87, CHR 0xD0, CHR 0xB5, CHR 0xD1,
     CHR 0x81, CHR 0xD1, CHR 0x82, CHR 0xD0, CHR 0xB2, CHR 0xD0, CHR 0xBE, CHR 0x20, CHR 0xD0,
     CHR 0xB4, CHR 0xD0, CHR 0xB0, CHR 0xD0, CHR 0xBD, CHR 0xD0, CHR 0xBD, CHR 0xD1, CHR 0x8B,
     CHR 0xD1, CHR 0x85, CHR 0x20, CHR 0xD0, CHR 0xBD, CHR 0xD0, CHR 0xB5, CHR 0xD0, CHR 0xB4,
     CHR 0xD0, CHR 0xBE, CHR 0xD1, CHR 0x81, CHR 0xD1, CHR 0x82, CHR 0xD0, CHR 0xB0, CHR 0xD1,
     CHR 0x82, CHR 0xD0, CHR 0xBE, CHR 0xD1, CHR 0x87, CHR 0xD0, CHR 0xBD, CHR 0xD0, CHR 0xBE,
     CHR 0x2C, CHR 0x20, CHR 0xD1, CHR 0x82, CHR 0xD1, CHR 0x80, CHR 0xD0, CHR 0xB5, CHR 0xD0,
     CHR 0xB1, CHR 0xD1, CHR 0x83, CHR 0xD0, CHR 0xB5, CHR 0xD1, CHR 0x82, CHR 0xD1, CHR 0x81,
     CHR 0xD1, CHR 0x8F, CHR 0x20, CHR 0xD0, CHR 0xB4, CHR 0xD0, CHR 0xBE, CHR 0xD1, CHR 0x80,
     CHR 0xD0, CHR 0xB0, CHR 0xD0, CHR 0xB1, CHR 0xD0, CHR 0xBE, CHR 0xD1, CHR 0x82, CHR 0xD0,
     CHR 0xBA, CHR 0xD0, CHR 0xB0, CHR 0x20, CHR 0x28, CHR 0xD0, CHR 0xBF, CHR 0xD0, CHR 0xBE,
     CHR 0x20, CHR 0xD1, CHR 0x82, CHR 0xD0, CHR 0xB5, CHR 0xD0, CHR 0xBA, CHR 0xD1, CHR 0x83,
     CHR 0xD1, CHR 0x89, CHR 0xD0, CHR 0xB8, CHR 0xD0, CHR 0xBC, CHR 0x20, CHR 0xD1, CHR 0x8D,
     CHR 0xD0, CHR 0xB2, CHR 0xD1, CHR 0x80, CHR 0xD0, CHR 0xB8, CHR 0xD1, CHR 0x81, CHR 0xD1,
     CHR 0x82, CHR 0xD0, CHR 0xB8, CHR 0xD0, CHR 0xBA, CHR 0xD0, CHR 0xB0, CHR 0xD0, CHR 0xBC,
     CHR 0x29, CHR 0x2E]"

definition quality_flags :: "quality_request \<Rightarrow> (string \<rightharpoonup> bool)" where
  \<comment> \<open>the dictionary \<^verbatim>\<open>flags\<close> built by the endpoint\<close>
  "quality_flags req = map_of
     [(''too_few_rows'', n_rows req < 1000),
      (''too_many_columns'', n_cols req > 100),
      (''too_many_missing'', max_missing_share req > flit (5 / 10)),
      (''no_numeric_columns'', numeric_cols req = 0),
      (''no_categorical_columns'', categorical_cols req = 0)]"

definition quality :: "quality_request \<Rightarrow> world \<Rightarrow> quality_response \<times> world" where
  "quality req w0 =
     (let (start, w1) = perf_counter w0;
          score = flit 1;
          score = fsub score (max_missing_share req);
          score = (if n_rows req < 1000 then fsub score (flit (2 / 10)) else score);
          score = (if n_cols req > 100 then fsub score (flit (1 / 10)) else score);
          score = (if numeric_cols req = 0 \<and> categorical_cols req > 0
                   then fsub score (flit (1 / 10)) else score);
          score = (if categorical_cols req = 0 \<and> numeric_cols req > 0
                   then fsub score (flit (5 / 100)) else score);
          score = py_max (flit 0) (py_min (flit 1) score);
          ok = (score \<ge> flit (7 / 10));
          msg = (if ok then quality_msg_ok else quality_msg_not_ok);
          (now, w2) = perf_counter w1;
          lat = fmul (fsub now start) (flit 1000);
          w3 = log_request ''/quality'' ''success'' lat (Some ok)
                 (Some (n_rows req)) (Some (n_cols req)) w2
      in (\<lparr>ok_for_model = ok, quality_score = Finite score, message = msg, latency_ms = lat,
            flags = Some (quality_flags req),
            dataset_shape = Some (map_of [(''n_rows'', n_rows req), (''n_cols'', n_cols req)])\<rparr>,
          w3))"

section \<open>Values returned by the analysis functions\<close>

text \<open>
  The dictionary of \<^verbatim>\<open>compute_quality_flags\<close> holds values of mixed types; the tag is
  what \<^verbatim>\<open>isinstance(value, bool)\<close> tests.
\<close>

datatype pyval = VBool bool | VFloat pyfloat | VInt int | VStr string | VNone

datatype error =
    HTTPException int string
  | AttributeError string
  | TypeError
  | ValueError
  | OverflowError

record summary =
  \<comment> \<open>the attributes the endpoints read; \<open>None\<close> when the object has no such attribute\<close>
  summary_n_rows :: "int option"
  summary_n_cols :: "int option"

record dataframe =
  df_columns :: "string list"
  df_rows :: "pyval list list"

definition df_empty :: "dataframe \<Rightarrow> bool" where
  \<comment> \<open>pandas: \<^verbatim>\<open>df.empty\<close> holds when any axis has length 0\<close>
  "df_empty df = (length (df_rows df) = 0 \<or> length (df_columns df) = 0)"

definition df_shape :: "dataframe \<Rightarrow> int \<times> int" where
  "df_shape df = (int (length (df_rows df)), int (length (df_columns df)))"

text \<open>
  What the endpoints call outside this module: the pandas parser (\<open>Inl\<close> carries the text of
  the exception it raised), the three functions of \<^verbatim>\<open>.core\<close>, and Python's conversion of a
  string to a float (\<open>None\<close> when it raises \<^verbatim>\<open>ValueError\<close>).
\<close>

record externals =
  read_csv :: "string \<Rightarrow> string + dataframe"
  summarize_dataset :: "dataframe \<Rightarrow> summary"
  missing_table :: "dataframe \<Rightarrow> dataframe"
  compute_quality_flags :: "summary \<Rightarrow> dataframe \<Rightarrow> dataframe \<Rightarrow> (string \<rightharpoonup> pyval)"
  str_to_float :: "string \<Rightarrow> pyfloat option"

fun py_float :: "externals \<Rightarrow> pyval \<Rightarrow> error + pyfloat" where
  \<comment> \<open>Python's \<^verbatim>\<open>float(v)\<close>\<close>
  "py_float ext (VBool b) = Inr (Finite (if b then flit 1 else flit 0))"
| "py_float ext (VFloat f) = Inr f"
| "py_float ext (VInt i) =
     (if 2 ^ 1024 \<le> \<bar>rnd (of_int i)\<bar> then Inl OverflowError else Inr (Finite (rnd (of_int i))))"
| "py_float ext (VStr s) = (case str_to_float ext s of None \<Rightarrow> Inl ValueError | Some f \<Rightarrow> Inr f)"
| "py_float ext VNone = Inl TypeError"

record upload_file =
  content_type :: "string option"
  file_bytes :: string

section \<open>The endpoints \<^verbatim>\<open>/quality-from-csv\<close> and \<^verbatim>\<open>/quality-flags-from-csv\<close>\<close>

definition allowed_content_types :: "string option list" where
  "allowed_content_types =
     [Some ''text/csv'', Some ''application/vnd.ms-excel'', Some ''application/octet-stream'']"

definition detail_content_type :: string where
  "detail_content_type =
    [CHR 0xD0, CHR 0x9E, CHR 0xD0, CHR 0xB6, CHR 0xD0, CHR 0xB8, CHR 0xD0, CHR 0xB4, CHR 0xD0,
     CHR 0xB0, CHR 0xD0, CHR 0xB5, CHR 0xD1, CHR 0x82, CHR 0xD1, CHR 0x81, CHR 0xD1, CHR 0x8F,
     CHR 0x20, CHR 0x43, CHR 0x53, CHR 0x56, CHR 0x2D, CHR 0xD1, CHR 0x84, CHR 0xD0, CHR 0xB0,
     CHR 0xD0, CHR 0xB9, CHR 0xD0, CHR 0xBB, CHR 0x20, CHR 0x28, CHR 0x63, CHR 0x6F, CHR 0x6E,
     CHR 0x74, CHR 0x65, CHR 0x6E, CHR 0x74, CHR 0x2D, CHR 0x74, CHR 0x79, CHR 0x70, CHR 0x65,
     CHR 0x20, CHR 0x74, CHR 0x65, CHR 0x78, CHR 0x74, CHR 0x2F, CHR 0x63, CHR 0x73, CHR 0x76,
     CHR 0x29, CHR 0x2E]"

definition detail_empty :: string where
  "detail_empty =
    [CHR 0x43, CHR 0x53, CHR 0x56, CHR 0x2D, CHR 0xD1, CHR 0x84, CHR 0xD0, CHR 0xB0, CHR 0xD0,
     CHR 0xB9, CHR 0xD0, CHR 0xBB, CHR 0x20, CHR 0xD0, CHR 0xBD, CHR 0xD0, CHR 0xB5, CHR 0x20,
     CHR 0xD1, CHR 0x81, CHR 0xD0, CHR 0xBE, CHR 0xD0, CHR 0xB4, CHR 0xD0, CHR 0xB5, CHR 0xD1,
     CHR 0x80, CHR 0xD0, CHR 0xB6, CHR 0xD0, CHR 0xB8, CHR 0xD1, CHR 0x82, CHR 0x20, CHR 0xD0,
     CHR 0xB4, CHR 0xD0, CHR 0xB0, CHR 0xD0, CHR 0xBD, CHR 0xD0, CHR 0xBD, CHR 0xD1, CHR 0x8B,
     CHR 0xD1, CHR 0x85, CHR 0x20, CHR 0x28, CHR 0xD0, CHR 0xBF, CHR 0xD1, CHR 0x83, CHR 0xD1,
     CHR 0x81, CHR 0xD1, CHR 0x82, CHR 0xD0, CHR 0xBE, CHR 0xD0, CHR 0xB9, CHR 0x20, CHR 0x44,
     CHR 0x61, CHR 0x74, CHR 0x61, CHR 0x46, CHR 0x72, CHR 0x61, CHR 0x6D, CHR 0x65, CHR 0x29,
     CHR 0x2E]"

definition detail_read_prefix :: string where
  "detail_read_prefix =
    [CHR 0xD0, CHR 0x9D, CHR 0xD0, CHR 0xB5, CHR 0x20, CHR 0xD1, CHR 0x83, CHR 0xD0, CHR 0xB4,
     CHR 0xD0, CHR 0xB0, CHR 0xD0, CHR 0xBB, CHR 0xD0, CHR 0xBE, CHR 0xD1, CHR 0x81, CHR 0xD1,
     CHR 0x8C, CHR 0x20, CHR 0xD0, CHR 0xBF, CHR 0xD1, CHR 0x80, CHR 0xD0, CHR 0xBE, CHR 0xD1,
     CHR 0x87, CHR 0xD0, CHR 0xB8, CHR 0xD1, CHR 0x82, CHR 0xD0, CHR 0xB0, CHR 0xD1, CHR 0x82,
     CHR 0xD1, CHR 0x8C, CHR 0x20, CHR 0x43, CHR 0x53, CHR 0x56, CHR 0x3A, CHR 0x20]"

definition csv_msg_ok :: string where
  "csv_msg_ok =
    [CHR 0x43, CHR 0x53, CHR 0x56, CHR 0x20, CHR 0xD0, CHR 0xB2, CHR 0xD1, CHR 0x8B, CHR 0xD0,
     CHR 0xB3, CHR 0xD0, CHR 0xBB, CHR 0xD1, CHR 0x8F, CHR 0xD0, CHR 0xB4, CHR 0xD0, CHR 0xB8,
     CHR 0xD1, CHR 0x82, CHR 0x20, CHR 0xD0, CHR 0xB4, CHR 0xD0, CHR 0xBE, CHR 0xD1, CHR 0x81,
     CHR 0xD1, CHR 0x82, CHR 0xD0, CHR 0xB0, CHR 0xD1, CHR 0x82, CHR 0xD0, CHR 0xBE, CHR 0xD1,
     CHR 0x87, CHR 0xD0, CHR 0xBD, CHR 0xD0, CHR 0xBE, CHR 0x20, CHR 0xD0, CHR 0xBA, CHR 0xD0,
     CHR 0xB0, CHR 0xD1, CHR 0x87, CHR 0xD0, CHR 0xB5, CHR 0xD1, CHR 0x81, CHR 0xD1, CHR 0x82,
     CHR 0xD0, CHR 0xB2, CHR 0xD0, CHR 0xB5, CHR 0xD0, CHR 0xBD, CHR 0xD0, CHR 0xBD, CHR 0xD1,
     CHR 0x8B, CHR 0xD0, CHR 0xBC, CHR 0x20, CHR 0xD0, CHR 0xB4, CHR 0xD0, CHR 0xBB, CHR 0xD1,
     CHR 0x8F, CHR 0x20, CHR 0xD0, CHR 0xBE, CHR 0xD0, CHR 0xB1, CHR 0xD1, CHR 0x83, CHR 0xD1,
     CHR 0x87, CHR 0xD0, CHR 0xB5, CHR 0xD0, CHR 0xBD, CHR 0xD0, CHR 0xB8, CHR 0xD1, CHR 0x8F,
     CHR 0x20, CHR 0xD0, CHR 0xBC, CHR 0xD0, CHR 0xBE, CHR 0xD0, CHR 0xB4, CHR 0xD0, CHR 0xB5,
     CHR 0xD0, CHR 0xBB, CHR 0xD0, CHR 0xB8, CHR 0x20, CHR 0x28, CHR 0xD0, CHR 0xBF, CHR 0xD0,
     CHR 0xBE, CHR 0x20, CHR 0xD1, CHR 0x82, CHR 0xD0, CHR 0xB5, CHR 0xD0, CHR 0xBA, CHR 0xD1,
     CHR 0x83, CHR 0xD1, CHR 0x89, CHR 0xD0, CHR 0xB8, CHR 0xD0, CHR 0xBC, CHR 0x20, CHR 0xD1,
     CHR 0x8D, CHR 0xD0, CHR 0xB2, CHR 0xD1, CHR 0x80, CHR 0xD0, CHR 0xB8, CHR 0xD1, CHR 0x81,
     CHR 0xD1, CHR 0x82, CHR 0xD0, CHR 0xB8, CHR 0xD0, CHR 0xBA, CHR 0xD0, CHR 0xB0, CHR 0xD0,
     CHR 0xBC, CHR 0x29, CHR 0x2E]"

definition csv_msg_not_ok :: string where
  "csv_msg_not_ok =
    [CHR 0x43, CHR 0x53, CHR 0x56, CHR 0x20, CHR 0xD1, CHR 0x82, CHR 0xD1, CHR 0x80, CHR 0xD0,
     CHR 0xB5, CHR 0xD0, CHR 0xB1, CHR 0xD1, CHR 0x83, CHR 0xD0, CHR 0xB5, CHR 0xD1, CHR 0x82,
     CHR 0x20, CHR 0xD0, CHR 0xB4, CHR 0xD0, CHR 0xBE, CHR 0xD1, CHR 0x80, CHR 0xD0, CHR 0xB0,
     CHR 0xD0, CHR 0xB1, CHR 0xD0, CHR 0xBE, CHR 0xD1, CHR 0x82, CHR 0xD0, CHR 0xBA, CHR 0xD0,
     CHR 0xB8, CHR 0x20, CHR 0xD0, CHR 0xBF, CHR 0xD0, CHR 0xB5, CHR 0xD1, CHR 0x80, CHR 0xD0,
     CHR 0xB5, CHR 0xD0, CHR 0xB4, CHR 0x20, CHR 0xD0, CHR 0xBE, CHR 0xD0, CHR 0xB1, CHR 0xD1,
     CHR 0x83, CHR 0xD1, CHR 0x87, CHR 0xD0, CHR 0xB5, CHR 0xD0, CHR 0xBD, CHR 0xD0, CHR 0xB8,
     CHR 0xD0, CHR 0xB5, CHR 0xD0, CHR 0xBC, CHR 0x20, CHR 0xD0, CHR 0xBC, CHR 0xD0, CHR 0xBE,
     CHR 0xD0, CHR 0xB4, CHR 0xD0, CHR 0xB5, CHR 0xD0, CHR 0xBB, CHR 0xD0, CHR 0xB8, CHR 0x20,
     CHR 0x28, CHR 0xD0, CHR 0xBF, CHR 0xD0, CHR 0xBE, CHR 0x20, CHR 0xD1, CHR 0x82, CHR 0xD0,
     CHR 0xB5, CHR 0xD0, CHR 0xBA, CHR 0xD1, CHR 0x83, CHR 0xD1, CHR 0x89, CHR 0xD0, CHR 0xB8,
     CHR 0xD0, CHR 0xBC, CHR 0x20, CHR 0xD1, CHR 0x8D, CHR 0xD0, CHR 0xB2, CHR 0xD1, CHR 0x80,
     CHR 0xD0, CHR 0xB8, CHR 0xD1, CHR 0x81, CHR 0xD1, CHR 0x82, CHR 0xD0, CHR 0xB8, CHR 0xD0,
     CHR 0xBA, CHR 0xD0, CHR 0xB0, CHR 0xD0, CHR 0xBC, CHR 0x29, CHR 0x2E]"

definition invoke :: "call \<Rightarrow> world \<Rightarrow> world" where
  "invoke c w = w\<lparr>calls := calls w @ [c]\<rparr>"

definition raise_400 :: "string \<Rightarrow> string \<Rightarrow> float64 \<Rightarrow> world \<Rightarrow> error \<times> world" where
  \<comment> \<open>the block repeated on each failure branch: read the clock, log \<open>status=error\<close> with
      the latency alone, raise \<^verbatim>\<open>HTTPException(status_code=400, detail=...)\<close>\<close>
  "raise_400 ep detail start w =
     (let (now, w1) = perf_counter w;
          lat = fmul (fsub now start) (flit 1000);
          w2 = log_request ep ''error'' lat None None None w1
      in (HTTPException 400 detail, w2))"

definition flags_bool_of :: "(string \<rightharpoonup> pyval) \<Rightarrow> (string \<rightharpoonup> bool)" where
  \<comment> \<open>\<^verbatim>\<open>{key: bool(value) for key, value in flags_all.items() if isinstance(value, bool)}\<close>\<close>
  "flags_bool_of flags_all =
     (\<lambda>key. case flags_all key of Some (VBool value) \<Rightarrow> Some value | _ \<Rightarrow> None)"

definition quality_from_csv ::
  "externals \<Rightarrow> upload_file \<Rightarrow> world \<Rightarrow> (error + quality_response) \<times> world" where
  "quality_from_csv ext upload w0 =
     (let (start, w1) = perf_counter w0 in
      if content_type upload \<notin> set allowed_content_types then
        (let (e, w') = raise_400 ''/quality-from-csv'' detail_content_type start w1
         in (Inl e, w'))
      else
        (let w2 = invoke ReadCsv w1 in
         case read_csv ext (file_bytes upload) of
           Inl exc \<Rightarrow>
             (let (e, w') = raise_400 ''/quality-from-csv'' (detail_read_prefix @ exc) start w2
              in (Inl e, w'))
         | Inr df \<Rightarrow>
             if df_empty df then
               (let (e, w') = raise_400 ''/quality-from-csv'' detail_empty start w2
                in (Inl e, w'))
             else
               (let smry = summarize_dataset ext df;
                    w3 = invoke SummarizeDataset w2;
                    missing_df = missing_table ext df;
                    w4 = invoke MissingTable w3;
                    flags_all = compute_quality_flags ext smry missing_df df;
                    w5 = invoke ComputeQualityFlags w4
                in case py_float ext (case flags_all ''quality_score'' of
                                        None \<Rightarrow> VFloat (Finite (flit 0)) | Some v \<Rightarrow> v) of
                     Inl e \<Rightarrow> (Inl e, w5)
                   | Inr score0 \<Rightarrow>
                       (let score = pf_max (Finite (flit 0)) (pf_min (Finite (flit 1)) score0);
                            ok = pf_le (Finite (flit (7 / 10))) score;
                            msg = (if ok then csv_msg_ok else csv_msg_not_ok);
                            (now, w6) = perf_counter w5;
                            lat = fmul (fsub now start) (flit 1000);
                            flags_bool = flags_bool_of flags_all;
                            (nr, nc) = (case (summary_n_rows smry, summary_n_cols smry) of
                                          (Some r, Some c) \<Rightarrow> (r, c)
                                        | _ \<Rightarrow> df_shape df);
                            w7 = log_request ''/quality-from-csv'' ''success'' lat (Some ok)
                                   (Some nr) (Some nc) w6
                        in (Inr \<lparr>ok_for_model = ok, quality_score = score, message = msg,
                                  latency_ms = lat, flags = Some flags_bool,
                                  dataset_shape = Some (map_of [(''n_rows'', nr), (''n_cols'', nc)])\<rparr>,
                            w7)))))"

definition quality_flags_from_csv ::
  "externals \<Rightarrow> upload_file \<Rightarrow> world \<Rightarrow> (error + quality_flags_response) \<times> world" where
  "quality_flags_from_csv ext upload w0 =
     (let (start, w1) = perf_counter w0 in
      if content_type upload \<notin> set allowed_content_types then
        (let (e, w') = raise_400 ''/quality-flags-from-csv'' detail_content_type start w1
         in (Inl e, w'))
      else
        (let w2 = invoke ReadCsv w1 in
         case read_csv ext (file_bytes upload) of
           Inl exc \<Rightarrow>
             (let (e, w') = raise_400 ''/quality-flags-from-csv'' (detail_read_prefix @ exc) start w2
              in (Inl e, w'))
         | Inr df \<Rightarrow>
             if df_empty df then
               (let (e, w') = raise_400 ''/quality-flags-from-csv'' detail_empty start w2
                in (Inl e, w'))
             else
               (let smry = summarize_dataset ext df;
                    w3 = invoke SummarizeDataset w2;
                    missing_df = missing_table ext df;
                    w4 = invoke MissingTable w3;
                    flags_all = compute_quality_flags ext smry missing_df df;
                    w5 = invoke ComputeQualityFlags w4;
                    (now, w6) = perf_counter w5;
                    lat = fmul (fsub now start) (flit 1000);
                    flags_bool = flags_bool_of flags_all
                in case summary_n_rows smry of
                     None \<Rightarrow> (Inl (AttributeError ''n_rows''), w6)
                   | Some nr \<Rightarrow>
                       (case summary_n_cols smry of
                          None \<Rightarrow> (Inl (AttributeError ''n_cols''), w6)
                        | Some nc \<Rightarrow>
                            (let w7 = log_request ''/quality-flags-from-csv'' ''success'' lat None
                                        (Some nr) (Some nc) w6
                             in (Inr \<lparr>flags_only = flags_bool\<rparr>, w7))))))"

section \<open>The scoring rule as the specification words it\<close>

definition spec_clamp :: "float64 \<Rightarrow> float64" where
  \<comment> \<open>clamp to \<open>[0.0, 1.0]\<close>\<close>
  "spec_clamp s = (if s < 0 then 0 else if 1 < s then 1 else s)"

definition spec_deductions :: "quality_request \<Rightarrow> float64 list" where
  \<comment> \<open>the amounts subtracted from 1.0, in order\<close>
  "spec_deductions req =
     [max_missing_share req]
     @ (if n_rows req < 1000 then [flit (2 / 10)] else [])
     @ (if n_cols req > 100 then [flit (1 / 10)] else [])
     @ (if numeric_cols req = 0 \<and> categorical_cols req > 0 then [flit (1 / 10)] else [])
     @ (if categorical_cols req = 0 \<and> numeric_cols req > 0 then [flit (5 / 100)] else [])"

definition spec_score :: "quality_request \<Rightarrow> float64" where
  "spec_score req = spec_clamp (foldl fsub (flit 1) (spec_deductions req))"

definition clamp_unit :: "pyfloat \<Rightarrow> float64" where
  \<comment> \<open>clamp to \<open>[0.0, 1.0]\<close>, extended to the values that are not finite the way
      \<^verbatim>\<open>max(0.0, min(1.0, score))\<close> treats them: a NaN loses both comparisons and gives 1.0\<close>
  "clamp_unit s = (case s of Finite x \<Rightarrow> spec_clamp x | PosInf \<Rightarrow> 1 | NegInf \<Rightarrow> 0 | NaN \<Rightarrow> 1)"

section \<open>Notions used in the statements\<close>

definition flags_all_of :: "externals \<Rightarrow> dataframe \<Rightarrow> (string \<rightharpoonup> pyval)" where
  \<comment> \<open>the dictionary \<^verbatim>\<open>flags_all\<close> both CSV endpoints compute from a parsed table\<close>
  "flags_all_of ext df =
     compute_quality_flags ext (summarize_dataset ext df) (missing_table ext df) df"

definition score_entry :: "(string \<rightharpoonup> pyval) \<Rightarrow> pyval" where
  \<comment> \<open>\<^verbatim>\<open>flags_all.get("quality_score", 0.0)\<close>\<close>
  "score_entry flags_all =
     (case flags_all ''quality_score'' of None \<Rightarrow> VFloat (Finite (flit 0)) | Some v \<Rightarrow> v)"

definition score_is_numeric :: "(string \<rightharpoonup> pyval) \<Rightarrow> bool" where
  \<comment> \<open>Modelled from the spec: \<^verbatim>\<open>compute_quality_flags\<close> lives in \<^verbatim>\<open>.core\<close>, outside this
      module; it is contracted to provide \<open>quality_score\<close> as a numeric field, which the
      comments of both CSV endpoints rely on\<close>
  "score_is_numeric flags_all =
     (case flags_all ''quality_score'' of
        Some (VFloat f) \<Rightarrow> True | Some (VInt i) \<Rightarrow> True | _ \<Rightarrow> False)"

definition summary_shape :: "summary \<Rightarrow> dataframe \<Rightarrow> int \<times> int" where
  \<comment> \<open>the dimensions read from the summary, or the table's own when an attribute is missing\<close>
  "summary_shape smry df =
     (case (summary_n_rows smry, summary_n_cols smry) of
        (Some r, Some c) \<Rightarrow> (r, c) | _ \<Rightarrow> df_shape df)"

definition error_record :: "string \<Rightarrow> world \<Rightarrow> log_record" where
  \<comment> \<open>the record of a request that began in state \<open>w\<close> and failed at its second reading of
      the clock: only endpoint, status, latency and request id are known\<close>
  "error_record ep w =
     \<lparr>endpoint = ep, status = ''error'',
      rec_latency_ms = fmul (fsub (clock w (Suc (ticks w))) (clock w (ticks w))) (flit 1000),
      rec_ok_for_model = None, rec_n_rows = None, rec_n_cols = None,
      request_id = request_id_var w\<rparr>"

section \<open>Sample inputs\<close>

definition sample_world :: world where
  "sample_world = \<lparr>clock = (\<lambda>n. of_nat n / 8), ticks = 0, request_id_var = ''unknown'',
     handled = [], calls = []\<rparr>"

definition sample_request :: quality_request where
  \<comment> \<open>the request of the specification's example, its share read from the JSON text \<^verbatim>\<open>0.9\<close>\<close>
  "sample_request = \<lparr>n_rows = 2000, n_cols = 5, max_missing_share = flit (9 / 10),
     numeric_cols = 3, categorical_cols = 2\<rparr>"

definition sample_flags_all :: "string \<rightharpoonup> pyval" where
  "sample_flags_all = map_of
     [(''quality_score'', VFloat (Finite (flit (8 / 10)))),
      (''max_missing_share'', VFloat (Finite (flit (5 / 100)))),
      (''too_few_rows'', VBool True),
      (''too_many_missing'', VBool False),
      (''has_constant_columns'', VBool False)]"

definition sample_externals :: externals where
  \<comment> \<open>a stand-in parser: no bytes raise, the bytes \<open>a,b\<close> are a header without rows,
      anything else is one row under that header\<close>
  "sample_externals =
     \<lparr>read_csv = (\<lambda>bytes. if bytes = [] then Inl ''No columns to parse from file''
                    else Inr \<lparr>df_columns = [''a'', ''b''],
                              df_rows = (if bytes = ''a,b'' then [] else [[VInt 1, VInt 2]])\<rparr>),
      summarize_dataset = (\<lambda>df. \<lparr>summary_n_rows = Some (fst (df_shape df)),
                                   summary_n_cols = Some (snd (df_shape df))\<rparr>),
      missing_table = (\<lambda>df. \<lparr>df_columns = [''missing_count'', ''missing_share''],
                               df_rows = []\<rparr>),
      compute_quality_flags = (\<lambda>smry missing_df df. sample_flags_all),
      str_to_float = (\<lambda>s. None)\<rparr>"

definition sample_upload :: upload_file where
  "sample_upload = \<lparr>content_type = Some ''text/csv'', file_bytes = ''a,b 1,2''\<rparr>"

definition bare_summary_externals :: externals where
  \<comment> \<open>an analysis whose summary object carries no dimension attributes\<close>
  "bare_summary_externals =
     sample_externals\<lparr>summarize_dataset := (\<lambda>df. \<lparr>summary_n_rows = None, summary_n_cols = None\<rparr>)\<rparr>"

definition no_score_externals :: externals where
  \<comment> \<open>an analysis that reports no \<open>quality_score\<close> at all\<close>
  "no_score_externals =
     sample_externals\<lparr>compute_quality_flags :=
       (\<lambda>smry missing_df df. sample_flags_all(''quality_score'' := None))\<rparr>"

section \<open>Rounding is monotone\<close>

lemma bitlen_powi_bounds:
  fixes p :: int
  assumes "0 < p"
  shows "(2::rat) powi (bitlen p - 1) \<le> of_int p" and "of_int p < (2::rat) powi (bitlen p)"
proof -
  from bitlen_bounds[OF assms] have a: "2 ^ nat (bitlen p - 1) \<le> p" and b: "p < 2 ^ nat (bitlen p)"
    by auto
  have pos: "1 \<le> bitlen p" using assms by (auto simp: bitlen_alt_def)
  have "(2::rat) powi (bitlen p - 1) = 2 ^ nat (bitlen p - 1)"
    using pos by (simp add: power_int_def)
  also have "\<dots> = of_int (2 ^ nat (bitlen p - 1))" by simp
  also have "\<dots> \<le> of_int p" using a by (simp only: of_int_le_iff)
  finally show "(2::rat) powi (bitlen p - 1) \<le> of_int p" .
  have "(of_int p :: rat) < of_int (2 ^ nat (bitlen p))" using b by (simp only: of_int_less_iff)
  also have "\<dots> = 2 ^ nat (bitlen p)" by simp
  also have "\<dots> = (2::rat) powi (bitlen p)" using pos by (simp add: power_int_def)
  finally show "of_int p < (2::rat) powi (bitlen p)" .
qed

lemma ilog2_bounds:
  assumes "x \<noteq> 0"
  shows "2 powi (ilog2 x) \<le> \<bar>x\<bar>" and "\<bar>x\<bar> < 2 powi (ilog2 x + 1)"
proof -
  obtain p q where pq: "quotient_of \<bar>x\<bar> = (p, q)" by (cases "quotient_of \<bar>x\<bar>")
  have q: "0 < q" using pq quotient_of_denom_pos by blast
  have xa: "\<bar>x\<bar> = of_int p / of_int q" using pq quotient_of_div by blast
  have "0 < \<bar>x\<bar>" using assms by simp
  then have p: "0 < p" using xa q by (simp add: zero_less_divide_iff)
  define d where "d = bitlen p - bitlen q"
  have up: "\<bar>x\<bar> < 2 powi (d + 1)"
  proof -
    have "of_int p < (2::rat) powi (bitlen p)" using bitlen_powi_bounds[OF p] by simp
    also have "(2::rat) powi (bitlen p) = 2 powi (d + 1) * 2 powi (bitlen q - 1)"
      by (simp add: d_def flip: power_int_add)
    also have "\<dots> \<le> 2 powi (d + 1) * of_int q"
      by (rule mult_left_mono) (use bitlen_powi_bounds[OF q] in simp_all)
    finally have "of_int p < (2::rat) powi (d + 1) * of_int q" .
    then show ?thesis using q by (simp add: xa pos_divide_less_eq)
  qed
  have low: "2 powi (d - 1) \<le> \<bar>x\<bar>"
  proof -
    have "(2::rat) powi (d - 1) * of_int q \<le> 2 powi (d - 1) * 2 powi (bitlen q)"
      by (rule mult_left_mono) (use bitlen_powi_bounds[OF q] in simp_all)
    also have "\<dots> = (2::rat) powi (bitlen p - 1)"
      by (simp add: d_def flip: power_int_add)
    also have "\<dots> \<le> of_int p" using bitlen_powi_bounds[OF p] by simp
    finally have "(2::rat) powi (d - 1) * of_int q \<le> of_int p" .
    then show ?thesis using q by (simp add: xa pos_le_divide_eq)
  qed
  have il: "ilog2 x = (if 2 powi d \<le> \<bar>x\<bar> then d else d - 1)"
    by (simp add: ilog2_def pq d_def Let_def)
  show "2 powi (ilog2 x) \<le> \<bar>x\<bar>" using low by (simp add: il)
  show "\<bar>x\<bar> < 2 powi (ilog2 x + 1)" using up by (auto simp add: il)
qed

lemma round_half_even_lower: "of_int n \<le> a \<Longrightarrow> n \<le> round_half_even a"
  unfolding round_half_even_def Let_def by (auto simp: le_floor_iff) linarith+

lemma round_half_even_upper: "a \<le> of_int n \<Longrightarrow> round_half_even a \<le> n"
  unfolding round_half_even_def Let_def
  by (auto simp: not_less) (linarith+)

lemma round_half_even_mono:
  assumes "a \<le> b"
  shows "round_half_even a \<le> round_half_even b"
proof (cases "\<lfloor>a\<rfloor> = \<lfloor>b\<rfloor>")
  case True
  then show ?thesis using assms unfolding round_half_even_def Let_def by auto
next
  case False
  then have "\<lfloor>a\<rfloor> + 1 \<le> \<lfloor>b\<rfloor>" using floor_mono[OF assms] by linarith
  moreover have "round_half_even a \<le> \<lfloor>a\<rfloor> + 1"
    by (rule round_half_even_upper) linarith
  moreover have "\<lfloor>b\<rfloor> \<le> round_half_even b"
    by (rule round_half_even_lower) simp
  ultimately show ?thesis by linarith
qed

lemma round_half_even_of_int [simp]: "round_half_even (of_int n) = n"
  by (simp add: round_half_even_def)

lemma round_half_even_minus: "round_half_even (- a) = - round_half_even a"
proof (cases "a = of_int \<lfloor>a\<rfloor>")
  case True
  then obtain n where "a = of_int n" ..
  then have "- a = of_int (- n)" by simp
  then show ?thesis using \<open>a = of_int n\<close> by (metis round_half_even_of_int)
next
  case False
  then have fl: "\<lfloor>- a\<rfloor> = - \<lfloor>a\<rfloor> - 1"
    by (metis Ints_of_int ceiling_altdef ceiling_def diff_minus_eq_add minus_diff_eq
        uminus_add_conv_diff floor_of_int add.inverse_inverse)
  have lt: "of_int \<lfloor>a\<rfloor> < a" using False by (metis floor_less_cancel floor_of_int of_int_floor_le order_le_less)
  show ?thesis
    unfolding round_half_even_def Let_def fl using lt
    by (auto simp: field_simps)
qed

lemma ilog2_minus [simp]: "ilog2 (- x) = ilog2 x"
  by (simp add: ilog2_def)

lemma rnd_0 [simp]: "rnd 0 = 0"
  by (simp add: rnd_def)

lemma rnd_minus: "rnd (- x) = - rnd x"
  by (simp add: rnd_def Let_def round_half_even_minus)

lemma rnd_pos_bounds:
  assumes "0 < x"
  shows "2 powi (ilog2 x) \<le> rnd x" and "rnd x \<le> 2 powi (ilog2 x + 1)"
proof -
  define e where "e = ilog2 x"
  define k where "k = e - 52"
  define y where "y = x / 2 powi k"
  have x0: "x \<noteq> 0" using assms by simp
  have lo: "2 powi e \<le> x" and hi: "x < 2 powi (e + 1)"
    using ilog2_bounds[OF x0] assms by (simp_all add: e_def)
  have kpos: "0 < (2::rat) powi k" by simp
  have e1: "(2::rat) powi e = 2 ^ 52 * 2 powi k"
    by (simp add: k_def power_int_diff)
  have e2: "(2::rat) powi (e + 1) = 2 ^ 53 * 2 powi k"
    by (simp add: k_def power_int_diff power_int_add)
  have ylo: "of_int (2 ^ 52) \<le> y"
    using lo kpos by (simp add: y_def e1 pos_le_divide_eq)
  have yhi: "y \<le> of_int (2 ^ 53)"
    using hi kpos by (simp add: y_def e2 pos_divide_le_eq)
  have r: "rnd x = of_int (round_half_even y) * 2 powi k"
    using x0 by (simp add: rnd_def Let_def y_def k_def e_def)
  have "(2 ^ 52 :: int) \<le> round_half_even y" by (rule round_half_even_lower[OF ylo])
  then have "(of_int (2 ^ 52) :: rat) \<le> of_int (round_half_even y)" by (simp only: of_int_le_iff)
  then have "2 ^ 52 * 2 powi k \<le> (of_int (round_half_even y) :: rat) * 2 powi k"
    using kpos by (simp add: mult_right_mono)
  then show "2 powi (ilog2 x) \<le> rnd x" by (simp add: r e1 flip: e_def)
  have "round_half_even y \<le> (2 ^ 53 :: int)" by (rule round_half_even_upper[OF yhi])
  then have "(of_int (round_half_even y) :: rat) \<le> of_int (2 ^ 53)" by (simp only: of_int_le_iff)
  then have "(of_int (round_half_even y) :: rat) * 2 powi k \<le> 2 ^ 53 * 2 powi k"
    using kpos by (simp add: mult_right_mono)
  then show "rnd x \<le> 2 powi (ilog2 x + 1)" by (simp add: r e2 flip: e_def)
qed

lemma rnd_pos:
  assumes "0 < x"
  shows "0 < rnd x"
proof -
  have "(0::rat) < 2 powi (ilog2 x)" by simp
  also have "\<dots> \<le> rnd x" by (rule rnd_pos_bounds(1)[OF assms])
  finally show ?thesis .
qed

lemma rnd_mono_pos:
  assumes "0 < x" and "x \<le> y"
  shows "rnd x \<le> rnd y"
proof -
  have y: "0 < y" using assms by simp
  have x0: "x \<noteq> 0" and y0: "y \<noteq> 0" using assms by auto
  have "2 powi (ilog2 x) \<le> x" using ilog2_bounds(1)[OF x0] assms by simp
  also have "x \<le> y" by fact
  also have "y < 2 powi (ilog2 y + 1)" using ilog2_bounds(2)[OF y0] y by simp
  finally have lt: "(2::rat) powi (ilog2 x) < 2 powi (ilog2 y + 1)" .
  have "ilog2 x < ilog2 y + 1"
  proof (rule ccontr)
    assume "\<not> ilog2 x < ilog2 y + 1"
    then have "ilog2 y + 1 \<le> ilog2 x" by simp
    then have "(2::rat) powi (ilog2 y + 1) \<le> 2 powi (ilog2 x)"
      by (intro power_int_increasing) simp_all
    with lt show False by simp
  qed
  then consider "ilog2 x = ilog2 y" | "ilog2 x + 1 \<le> ilog2 y" by linarith
  then show ?thesis
  proof cases
    case 1
    have "x / 2 powi (ilog2 y - 52) \<le> y / 2 powi (ilog2 y - 52)"
      using assms by (simp add: divide_right_mono)
    then have "round_half_even (x / 2 powi (ilog2 y - 52)) \<le> round_half_even (y / 2 powi (ilog2 y - 52))"
      by (rule round_half_even_mono)
    then have "(of_int (round_half_even (x / 2 powi (ilog2 y - 52))) :: rat)
        \<le> of_int (round_half_even (y / 2 powi (ilog2 y - 52)))"
      by (simp only: of_int_le_iff)
    then show ?thesis using x0 y0 by (simp add: rnd_def Let_def 1 mult_right_mono)
  next
    case 2
    have "rnd x \<le> 2 powi (ilog2 x + 1)" by (rule rnd_pos_bounds(2)[OF assms(1)])
    also have "\<dots> \<le> 2 powi (ilog2 y)" using 2 by (simp add: power_int_increasing)
    also have "\<dots> \<le> rnd y" by (rule rnd_pos_bounds(1)[OF y])
    finally show ?thesis .
  qed
qed

lemma rnd_mono:
  assumes "x \<le> y"
  shows "rnd x \<le> rnd y"
proof -
  consider "0 < x" | "x = 0" "y = 0" | "x = 0" "0 < y" | "x < 0" "0 \<le> y" | "x < 0" "y < 0"
    using assms by linarith
  then show ?thesis
  proof cases
    case 1
    then show ?thesis using assms by (rule rnd_mono_pos)
  next
    case 2
    then show ?thesis by simp
  next
    case 3
    then show ?thesis using rnd_pos[of y] by simp
  next
    case 4
    have "0 < rnd (- x)" using 4 by (simp add: rnd_pos)
    then have "rnd x < 0" by (simp add: rnd_minus)
    moreover have "0 \<le> rnd y" using 4 rnd_pos[of y] by (cases "y = 0") auto
    ultimately show ?thesis by simp
  next
    case 5
    have "rnd (- y) \<le> rnd (- x)" using 5 assms by (intro rnd_mono_pos) auto
    then show ?thesis by (simp add: rnd_minus)
  qed
qed

lemma fsub_mono: "a \<le> a' \<Longrightarrow> b' \<le> b \<Longrightarrow> fsub a b \<le> fsub a' b'"
  unfolding fsub_def by (rule rnd_mono) simp

lemma flit_0 [simp]: "flit 0 = 0"
  by (simp add: flit_def)

lemma flit_1 [simp]: "flit 1 = 1"
  by code_simp

lemma flit_values:
  "flit (1 / 10) = 3602879701896397 / 2 ^ 55"
  "flit (2 / 10) = 3602879701896397 / 2 ^ 54"
  "flit (5 / 100) = 3602879701896397 / 2 ^ 56"
  "flit (7 / 10) = 3152519739159347 / 2 ^ 52"
  "flit (9 / 10) = 8106479329266893 / 2 ^ 53"
  "flit (5 / 10) = 1 / 2"
  "flit 1000 = 1000"
  by code_simp+

lemma py_clamp_eq: "py_max 0 (py_min 1 s) = spec_clamp s"
  by (auto simp: py_max_def py_min_def spec_clamp_def)

lemma spec_clamp_range: "0 \<le> spec_clamp s" "spec_clamp s \<le> 1"
  by (auto simp: spec_clamp_def)

lemma spec_clamp_mono: "s \<le> t \<Longrightarrow> spec_clamp s \<le> spec_clamp t"
  by (auto simp: spec_clamp_def)

section \<open>The endpoint \<^verbatim>\<open>/quality\<close>: score, verdict and flags\<close>

lemma quality_score_eq: "quality_score (fst (quality req w)) = Finite (spec_score req)"
  by (simp add: quality_def perf_counter_def Let_def spec_score_def spec_deductions_def
      py_clamp_eq split: prod.splits)

lemma quality_ok_eq: "ok_for_model (fst (quality req w)) = (flit (7 / 10) \<le> spec_score req)"
  by (simp add: quality_def perf_counter_def Let_def spec_score_def spec_deductions_def
      py_clamp_eq split: prod.splits)

lemma quality_message_eq:
  "message (fst (quality req w)) =
     (if ok_for_model (fst (quality req w)) then quality_msg_ok else quality_msg_not_ok)"
  by (simp add: quality_def perf_counter_def Let_def split: prod.splits)

lemma quality_flags_eq: "flags (fst (quality req w)) = Some (quality_flags req)"
  by (simp add: quality_def perf_counter_def Let_def split: prod.splits)

lemma quality_msgs_distinct: "quality_msg_ok \<noteq> quality_msg_not_ok"
  by (simp add: quality_msg_ok_def quality_msg_not_ok_def)

lemma quality_flags_values:
  "quality_flags req ''too_few_rows'' = Some (n_rows req < 1000)"
  "quality_flags req ''too_many_columns'' = Some (n_cols req > 100)"
  "quality_flags req ''too_many_missing'' = Some (max_missing_share req > flit (5 / 10))"
  "quality_flags req ''no_numeric_columns'' = Some (numeric_cols req = 0)"
  "quality_flags req ''no_categorical_columns'' = Some (categorical_cols req = 0)"
  by (simp_all add: quality_flags_def)

lemma quality_flags_dom:
  "dom (quality_flags req) = {''too_few_rows'', ''too_many_columns'', ''too_many_missing'',
     ''no_numeric_columns'', ''no_categorical_columns''}"
  by (auto simp add: quality_flags_def dom_def split: if_splits)

lemma sample_score: "spec_score sample_request = 7205759403792792 / 2 ^ 56"
  by code_simp

lemma sample_not_ok: "\<not> flit (7 / 10) \<le> spec_score sample_request"
  by code_simp

lemma sample_flags:
  "quality_flags sample_request ''too_many_missing'' = Some True"
  "quality_flags sample_request ''too_few_rows'' = Some False"
  by code_simp+

lemma spec_score_antimono:
  assumes "max_missing_share r1 \<le> max_missing_share r2"
    and "n_rows r1 = n_rows r2" and "n_cols r1 = n_cols r2"
    and "numeric_cols r1 = numeric_cols r2" and "categorical_cols r1 = categorical_cols r2"
  shows "spec_score r2 \<le> spec_score r1"
  unfolding spec_score_def spec_deductions_def using assms
  by (auto intro!: spec_clamp_mono fsub_mono)

text \<open>
  C1. For every request, the score returned by \<^verbatim>\<open>/quality\<close> is the deduction sequence of
  the specification: start at 1.0, subtract the missing share, then 0.2 for fewer than 1000
  rows, 0.1 for more than 100 columns, 0.1 when there are categorical but no numeric
  columns, 0.05 when there are numeric but no categorical columns, each subtraction rounded
  as a float, and clamp to [0,1]. The score lies in [0,1]; \<open>ok_for_model\<close> holds exactly
  when the score is at least the float 0.7; the message is one of two distinct fixed
  strings, chosen by \<open>ok_for_model\<close>.
\<close>

theorem quality_score_verdict:
  "quality_score (fst (quality req w)) = Finite (spec_score req)
   \<and> 0 \<le> spec_score req \<and> spec_score req \<le> 1
   \<and> ok_for_model (fst (quality req w)) = (flit (7 / 10) \<le> spec_score req)
   \<and> message (fst (quality req w))
       = (if ok_for_model (fst (quality req w)) then quality_msg_ok else quality_msg_not_ok)
   \<and> quality_msg_ok \<noteq> quality_msg_not_ok"
  using quality_score_eq[of req w] quality_ok_eq[of req w] quality_message_eq[of req w]
    quality_msgs_distinct spec_clamp_range[of "foldl fsub (flit 1) (spec_deductions req)"]
  unfolding spec_score_def by blast

text \<open>
  C2 (as stated, at its own example). The specification's example request
  (\<open>max_missing_share = 0.9\<close>, 2000 rows, 5 columns, 3 numeric, 2 categorical) does not
  yield the score 0.1: the float nearest to 0.9 lies above 0.9, so \<open>1.0 - 0.9\<close> is
  0.09999999999999998, two units in the last place below the float 0.1.
\<close>

theorem quality_sample_score_not_tenth:
  "valid_request sample_request
   \<and> quality_score (fst (quality sample_request sample_world)) \<noteq> Finite (flit (1 / 10))
   \<and> quality_score (fst (quality sample_request sample_world)) \<noteq> Finite (1 / 10)"
  by code_simp

text \<open>
  C2 (amended). For every request, the flags returned by \<^verbatim>\<open>/quality\<close> are exactly the five
  entries \<open>too_few_rows = n_rows < 1000\<close>, \<open>too_many_columns = n_cols > 100\<close>,
  \<open>too_many_missing = max_missing_share > 0.5\<close>, \<open>no_numeric_columns = numeric_cols == 0\<close>,
  \<open>no_categorical_columns = categorical_cols == 0\<close>, computed from the request's fields
  alone. The example request yields the score \<open>7205759403792792 / 2^56\<close>
  (0.09999999999999998), \<open>ok_for_model = false\<close>, \<open>too_many_missing = true\<close> and
  \<open>too_few_rows = false\<close>.
\<close>

theorem quality_flags_from_raw_fields:
  "flags (fst (quality req w)) = Some (quality_flags req)
   \<and> dom (quality_flags req) = {''too_few_rows'', ''too_many_columns'', ''too_many_missing'',
        ''no_numeric_columns'', ''no_categorical_columns''}
   \<and> quality_flags req ''too_few_rows'' = Some (n_rows req < 1000)
   \<and> quality_flags req ''too_many_columns'' = Some (n_cols req > 100)
   \<and> quality_flags req ''too_many_missing'' = Some (max_missing_share req > flit (5 / 10))
   \<and> quality_flags req ''no_numeric_columns'' = Some (numeric_cols req = 0)
   \<and> quality_flags req ''no_categorical_columns'' = Some (categorical_cols req = 0)
   \<and> quality_score (fst (quality sample_request w)) = Finite (7205759403792792 / 2 ^ 56)
   \<and> \<not> ok_for_model (fst (quality sample_request w))
   \<and> quality_flags sample_request ''too_many_missing'' = Some True
   \<and> quality_flags sample_request ''too_few_rows'' = Some False"
  using quality_flags_eq[of req w] quality_flags_dom[of req] quality_flags_values[of req]
    quality_score_eq[of sample_request w] quality_ok_eq[of sample_request w]
    sample_score sample_not_ok sample_flags
  by (simp only: simp_thms)

text \<open>
  C4. Two requests that agree on \<open>n_rows\<close>, \<open>n_cols\<close>, \<open>numeric_cols\<close> and
  \<open>categorical_cols\<close>: if the first has the smaller or equal \<open>max_missing_share\<close>, the
  score returned for the second is less than or equal to the score returned for the first.
\<close>

theorem quality_score_antimono:
  assumes "max_missing_share r1 \<le> max_missing_share r2"
    and "n_rows r1 = n_rows r2" and "n_cols r1 = n_cols r2"
    and "numeric_cols r1 = numeric_cols r2" and "categorical_cols r1 = categorical_cols r2"
  shows "pf_le (quality_score (fst (quality r2 w2))) (quality_score (fst (quality r1 w1)))"
  using spec_score_antimono[OF assms] by (simp add: quality_score_eq)

theorem quality_score_antimono_witness:
  "max_missing_share (sample_request\<lparr>max_missing_share := flit (1 / 10)\<rparr>)
     \<le> max_missing_share sample_request
   \<and> pf_le (quality_score (fst (quality sample_request sample_world)))
        (quality_score (fst (quality (sample_request\<lparr>max_missing_share := flit (1 / 10)\<rparr>)
           sample_world)))"
proof -
  have h: "max_missing_share (sample_request\<lparr>max_missing_share := flit (1 / 10)\<rparr>)
      \<le> max_missing_share sample_request"
    by code_simp
  show ?thesis
    using h quality_score_antimono[OF h, of sample_world sample_world] by simp
qed

section \<open>The CSV endpoints, branch by branch\<close>

lemma raise_400_eq:
  "raise_400 ep d start w =
     (HTTPException 400 d,
      w\<lparr>ticks := Suc (ticks w),
        handled := handled w @
          [\<lparr>endpoint = ep, status = ''error'',
            rec_latency_ms = fmul (fsub (clock w (ticks w)) start) (flit 1000),
            rec_ok_for_model = None, rec_n_rows = None, rec_n_cols = None,
            request_id = request_id_var w\<rparr>]\<rparr>)"
  by (simp add: raise_400_def perf_counter_def log_request_def Let_def)

lemma qfc_content_type:
  assumes "content_type upload \<notin> set allowed_content_types"
  shows "quality_from_csv ext upload w =
     (Inl (HTTPException 400 detail_content_type),
      w\<lparr>ticks := Suc (Suc (ticks w)),
        handled := handled w @ [error_record ''/quality-from-csv'' w]\<rparr>)"
  using assms
  by (simp add: quality_from_csv_def perf_counter_def error_record_def raise_400_eq)

lemma qfc_parse_failure:
  assumes "content_type upload \<in> set allowed_content_types"
    and "read_csv ext (file_bytes upload) = Inl exc"
  shows "quality_from_csv ext upload w =
     (Inl (HTTPException 400 (detail_read_prefix @ exc)),
      w\<lparr>ticks := Suc (Suc (ticks w)), calls := calls w @ [ReadCsv],
        handled := handled w @ [error_record ''/quality-from-csv'' w]\<rparr>)"
  using assms
  by (simp add: quality_from_csv_def perf_counter_def error_record_def invoke_def raise_400_eq)

lemma qfc_empty:
  assumes "content_type upload \<in> set allowed_content_types"
    and "read_csv ext (file_bytes upload) = Inr df" and "df_empty df"
  shows "quality_from_csv ext upload w =
     (Inl (HTTPException 400 detail_empty),
      w\<lparr>ticks := Suc (Suc (ticks w)), calls := calls w @ [ReadCsv],
        handled := handled w @ [error_record ''/quality-from-csv'' w]\<rparr>)"
  using assms
  by (simp add: quality_from_csv_def perf_counter_def error_record_def invoke_def raise_400_eq)

lemma pf_clamp_eq: "pf_max (Finite 0) (pf_min (Finite 1) s) = Finite (clamp_unit s)"
  by (cases s) (auto simp: pf_max_def pf_min_def clamp_unit_def spec_clamp_def)

lemma qfc_conversion_error:
  assumes "content_type upload \<in> set allowed_content_types"
    and "read_csv ext (file_bytes upload) = Inr df" and "\<not> df_empty df"
    and "py_float ext (score_entry (flags_all_of ext df)) = Inl e"
  shows "quality_from_csv ext upload w =
     (Inl e, w\<lparr>ticks := Suc (ticks w),
        calls := calls w @ [ReadCsv, SummarizeDataset, MissingTable, ComputeQualityFlags]\<rparr>)"
  using assms
  by (simp add: quality_from_csv_def perf_counter_def invoke_def score_entry_def
      flags_all_of_def Let_def)

lemma qfc_success:
  assumes "content_type upload \<in> set allowed_content_types"
    and "read_csv ext (file_bytes upload) = Inr df" and "\<not> df_empty df"
    and "py_float ext (score_entry (flags_all_of ext df)) = Inr s0"
  shows "fst (quality_from_csv ext upload w) =
     Inr \<lparr>ok_for_model = (flit (7 / 10) \<le> clamp_unit s0),
          quality_score = Finite (clamp_unit s0),
          message = (if flit (7 / 10) \<le> clamp_unit s0 then csv_msg_ok else csv_msg_not_ok),
          latency_ms = fmul (fsub (clock w (Suc (ticks w))) (clock w (ticks w))) (flit 1000),
          flags = Some (flags_bool_of (flags_all_of ext df)),
          dataset_shape = Some (map_of
            [(''n_rows'', fst (summary_shape (summarize_dataset ext df) df)),
             (''n_cols'', snd (summary_shape (summarize_dataset ext df) df))])\<rparr>"
  using assms
  by (simp add: quality_from_csv_def perf_counter_def invoke_def score_entry_def
      flags_all_of_def Let_def pf_clamp_eq summary_shape_def split: prod.splits)

lemma ingest_cases:
  obtains (content_type) "content_type upload \<notin> set allowed_content_types"
  | (parse) exc where "content_type upload \<in> set allowed_content_types"
      "read_csv ext (file_bytes upload) = Inl exc"
  | (empty) df where "content_type upload \<in> set allowed_content_types"
      "read_csv ext (file_bytes upload) = Inr df" "df_empty df"
  | (table) df where "content_type upload \<in> set allowed_content_types"
      "read_csv ext (file_bytes upload) = Inr df" "\<not> df_empty df"
  by (cases "read_csv ext (file_bytes upload)") auto

lemma qfc_success_log:
  assumes "content_type upload \<in> set allowed_content_types"
    and "read_csv ext (file_bytes upload) = Inr df" and "\<not> df_empty df"
    and "py_float ext (score_entry (flags_all_of ext df)) = Inr s0"
  shows "snd (quality_from_csv ext upload w) =
     w\<lparr>ticks := Suc (Suc (ticks w)),
       calls := calls w @ [ReadCsv, SummarizeDataset, MissingTable, ComputeQualityFlags],
       handled := handled w @
         [\<lparr>endpoint = ''/quality-from-csv'', status = ''success'',
           rec_latency_ms = fmul (fsub (clock w (Suc (ticks w))) (clock w (ticks w))) (flit 1000),
           rec_ok_for_model = Some (flit (7 / 10) \<le> clamp_unit s0),
           rec_n_rows = Some (fst (summary_shape (summarize_dataset ext df) df)),
           rec_n_cols = Some (snd (summary_shape (summarize_dataset ext df) df)),
           request_id = request_id_var w\<rparr>]\<rparr>"
  using assms
  by (simp add: quality_from_csv_def perf_counter_def invoke_def score_entry_def
      flags_all_of_def Let_def pf_clamp_eq log_request_def summary_shape_def split: prod.splits)

lemma qffc_content_type:
  assumes "content_type upload \<notin> set allowed_content_types"
  shows "quality_flags_from_csv ext upload w =
     (Inl (HTTPException 400 detail_content_type),
      w\<lparr>ticks := Suc (Suc (ticks w)),
        handled := handled w @ [error_record ''/quality-flags-from-csv'' w]\<rparr>)"
  using assms
  by (simp add: quality_flags_from_csv_def perf_counter_def error_record_def raise_400_eq)

lemma qffc_parse_failure:
  assumes "content_type upload \<in> set allowed_content_types"
    and "read_csv ext (file_bytes upload) = Inl exc"
  shows "quality_flags_from_csv ext upload w =
     (Inl (HTTPException 400 (detail_read_prefix @ exc)),
      w\<lparr>ticks := Suc (Suc (ticks w)), calls := calls w @ [ReadCsv],
        handled := handled w @ [error_record ''/quality-flags-from-csv'' w]\<rparr>)"
  using assms
  by (simp add: quality_flags_from_csv_def perf_counter_def error_record_def invoke_def
      raise_400_eq)

lemma qffc_empty:
  assumes "content_type upload \<in> set allowed_content_types"
    and "read_csv ext (file_bytes upload) = Inr df" and "df_empty df"
  shows "quality_flags_from_csv ext upload w =
     (Inl (HTTPException 400 detail_empty),
      w\<lparr>ticks := Suc (Suc (ticks w)), calls := calls w @ [ReadCsv],
        handled := handled w @ [error_record ''/quality-flags-from-csv'' w]\<rparr>)"
  using assms
  by (simp add: quality_flags_from_csv_def perf_counter_def error_record_def invoke_def
      raise_400_eq)

lemma qffc_no_attribute:
  assumes "content_type upload \<in> set allowed_content_types"
    and "read_csv ext (file_bytes upload) = Inr df" and "\<not> df_empty df"
    and "summary_n_rows (summarize_dataset ext df) = None
         \<or> summary_n_cols (summarize_dataset ext df) = None"
  shows "\<exists>a. fst (quality_flags_from_csv ext upload w) = Inl (AttributeError a)"
    and "handled (snd (quality_flags_from_csv ext upload w)) = handled w"
  using assms
  by (auto simp add: quality_flags_from_csv_def perf_counter_def invoke_def Let_def
      split: prod.splits option.splits)

lemma qffc_success:
  assumes "content_type upload \<in> set allowed_content_types"
    and "read_csv ext (file_bytes upload) = Inr df" and "\<not> df_empty df"
    and "summary_n_rows (summarize_dataset ext df) = Some nr"
    and "summary_n_cols (summarize_dataset ext df) = Some nc"
  shows "quality_flags_from_csv ext upload w =
     (Inr \<lparr>flags_only = flags_bool_of (flags_all_of ext df)\<rparr>,
      w\<lparr>ticks := Suc (Suc (ticks w)),
       calls := calls w @ [ReadCsv, SummarizeDataset, MissingTable, ComputeQualityFlags],
       handled := handled w @
         [\<lparr>endpoint = ''/quality-flags-from-csv'', status = ''success'',
           rec_latency_ms = fmul (fsub (clock w (Suc (ticks w))) (clock w (ticks w))) (flit 1000),
           rec_ok_for_model = None, rec_n_rows = Some nr, rec_n_cols = Some nc,
           request_id = request_id_var w\<rparr>]\<rparr>)"
  using assms
  by (simp add: quality_flags_from_csv_def perf_counter_def invoke_def
      flags_all_of_def Let_def log_request_def split: prod.splits)

lemma flags_bool_of_iff:
  "(flags_bool_of m k = Some b) = (m k = Some (VBool b))"
  by (auto simp: flags_bool_of_def split: option.splits pyval.splits)

lemma format_error_record:
  "format_record ts (error_record ep w) =
     [(''endpoint'', JStr ep), (''status'', JStr ''error''),
      (''latency_ms'', JFloat (fmul (fsub (clock w (Suc (ticks w))) (clock w (ticks w))) (flit 1000))),
      (''timestamp'', JStr (ts @ ''Z'')), (''request_id'', JStr (request_id_var w))]"
  by (simp add: format_record_def error_record_def)

lemma csv_msgs_distinct: "csv_msg_ok \<noteq> csv_msg_not_ok"
  by (simp add: csv_msg_ok_def csv_msg_not_ok_def)

lemma clamp_unit_range: "0 \<le> clamp_unit s" "clamp_unit s \<le> 1"
  by (cases s; simp add: clamp_unit_def spec_clamp_range)+

section \<open>The CSV endpoints: score, flags, failures and telemetry\<close>

text \<open>
  C3. Every successful request to \<^verbatim>\<open>/quality-from-csv\<close> reads the \<open>quality_score\<close> entry of
  the analysis' flags (0.0 when there is none), converts it to a float, clamps it to [0,1],
  sets \<open>ok_for_model\<close> to whether the clamped score is at least 0.7, and returns as flags
  exactly the boolean-tagged entries of the analysis' flags: a key is returned with a value
  if and only if the analysis maps it to that boolean, so every entry of another type is
  absent.
\<close>

theorem csv_score_from_flags:
  assumes "fst (quality_from_csv ext upload w) = Inr r"
  shows "\<exists>df s0. read_csv ext (file_bytes upload) = Inr df
     \<and> py_float ext (score_entry (flags_all_of ext df)) = Inr s0
     \<and> quality_score r = Finite (clamp_unit s0)
     \<and> 0 \<le> clamp_unit s0 \<and> clamp_unit s0 \<le> 1
     \<and> ok_for_model r = (flit (7 / 10) \<le> clamp_unit s0)
     \<and> flags r = Some (flags_bool_of (flags_all_of ext df))
     \<and> (\<forall>k b. (flags_bool_of (flags_all_of ext df) k = Some b)
                = (flags_all_of ext df k = Some (VBool b)))"
proof (cases rule: ingest_cases[where upload = upload and ext = ext])
  case content_type
  then show ?thesis using assms by (simp add: qfc_content_type)
next
  case (parse exc)
  then show ?thesis using assms by (simp add: qfc_parse_failure)
next
  case (empty df)
  then show ?thesis using assms by (simp add: qfc_empty)
next
  case (table df)
  show ?thesis
  proof (cases "py_float ext (score_entry (flags_all_of ext df))")
    case (Inl e)
    then show ?thesis using assms table by (simp add: qfc_conversion_error)
  next
    case (Inr s0)
    have "r = \<lparr>ok_for_model = (flit (7 / 10) \<le> clamp_unit s0),
          quality_score = Finite (clamp_unit s0),
          message = (if flit (7 / 10) \<le> clamp_unit s0 then csv_msg_ok else csv_msg_not_ok),
          latency_ms = fmul (fsub (clock w (Suc (ticks w))) (clock w (ticks w))) (flit 1000),
          flags = Some (flags_bool_of (flags_all_of ext df)),
          dataset_shape = Some (map_of
            [(''n_rows'', fst (summary_shape (summarize_dataset ext df) df)),
             (''n_cols'', snd (summary_shape (summarize_dataset ext df) df))])\<rparr>"
      using assms qfc_success[OF table Inr, of w] by simp
    then show ?thesis
      using table(2) Inr clamp_unit_range[of s0] flags_bool_of_iff
      by (intro exI[of _ df] exI[of _ s0]) simp
  qed
qed

theorem csv_score_from_flags_witness:
  "fst (quality_from_csv sample_externals sample_upload sample_world)
     = Inr (projr (fst (quality_from_csv sample_externals sample_upload sample_world)))
   \<and> quality_score (projr (fst (quality_from_csv sample_externals sample_upload sample_world)))
       = Finite (flit (8 / 10))
   \<and> ok_for_model (projr (fst (quality_from_csv sample_externals sample_upload sample_world)))
   \<and> the (flags (projr (fst (quality_from_csv sample_externals sample_upload sample_world))))
        ''too_few_rows'' = Some True
   \<and> the (flags (projr (fst (quality_from_csv sample_externals sample_upload sample_world))))
        ''quality_score'' = None
   \<and> the (flags (projr (fst (quality_from_csv sample_externals sample_upload sample_world))))
        ''max_missing_share'' = None
   \<and> (\<exists>df s0. read_csv sample_externals (file_bytes sample_upload) = Inr df
     \<and> py_float sample_externals (score_entry (flags_all_of sample_externals df)) = Inr s0
     \<and> quality_score (projr (fst (quality_from_csv sample_externals sample_upload sample_world)))
         = Finite (clamp_unit s0)
     \<and> flags (projr (fst (quality_from_csv sample_externals sample_upload sample_world)))
         = Some (flags_bool_of (flags_all_of sample_externals df)))"
proof -
  have "\<not> isl (fst (quality_from_csv sample_externals sample_upload sample_world))"
    by code_simp
  then have h: "fst (quality_from_csv sample_externals sample_upload sample_world)
     = Inr (projr (fst (quality_from_csv sample_externals sample_upload sample_world)))"
    by simp
  have v: "quality_score (projr (fst (quality_from_csv sample_externals sample_upload sample_world)))
       = Finite (flit (8 / 10))"
    "ok_for_model (projr (fst (quality_from_csv sample_externals sample_upload sample_world)))"
    "the (flags (projr (fst (quality_from_csv sample_externals sample_upload sample_world))))
        ''too_few_rows'' = Some True"
    "the (flags (projr (fst (quality_from_csv sample_externals sample_upload sample_world))))
        ''quality_score'' = None"
    "the (flags (projr (fst (quality_from_csv sample_externals sample_upload sample_world))))
        ''max_missing_share'' = None"
    by code_simp+
  show ?thesis
    using h v csv_score_from_flags[OF h] by blast
qed

text \<open>
  C5. A request to either CSV endpoint whose content type is not one of the three recognised
  ones (or is missing) fails with \<^verbatim>\<open>HTTPException(400)\<close> and the content-type detail; the
  parser is not called: the request adds no call to the trace, and the outcome is the same
  whatever the parser and the analysis functions are.
\<close>

theorem content_type_rejected_before_parse:
  assumes "content_type upload \<notin> set allowed_content_types"
  shows "fst (quality_from_csv ext upload w) = Inl (HTTPException 400 detail_content_type)
     \<and> calls (snd (quality_from_csv ext upload w)) = calls w
     \<and> quality_from_csv ext upload w = quality_from_csv ext' upload w
     \<and> fst (quality_flags_from_csv ext upload w) = Inl (HTTPException 400 detail_content_type)
     \<and> calls (snd (quality_flags_from_csv ext upload w)) = calls w
     \<and> quality_flags_from_csv ext upload w = quality_flags_from_csv ext' upload w"
  by (simp add: qfc_content_type[OF assms] qffc_content_type[OF assms])

theorem content_type_rejected_before_parse_witness:
  "content_type (sample_upload\<lparr>content_type := Some ''application/json''\<rparr>)
     \<notin> set allowed_content_types
   \<and> fst (quality_from_csv sample_externals
          (sample_upload\<lparr>content_type := Some ''application/json''\<rparr>) sample_world)
       = Inl (HTTPException 400 detail_content_type)
   \<and> calls (snd (quality_from_csv sample_externals
          (sample_upload\<lparr>content_type := Some ''application/json''\<rparr>) sample_world)) = []
   \<and> fst (quality_flags_from_csv sample_externals
          (sample_upload\<lparr>content_type := Some ''application/json''\<rparr>) sample_world)
       = Inl (HTTPException 400 detail_content_type)
   \<and> calls (snd (quality_flags_from_csv sample_externals
          (sample_upload\<lparr>content_type := Some ''application/json''\<rparr>) sample_world)) = []"
proof -
  have h: "content_type (sample_upload\<lparr>content_type := Some ''application/json''\<rparr>)
     \<notin> set allowed_content_types"
    by (simp add: allowed_content_types_def)
  have c: "calls sample_world = []" by (simp add: sample_world_def)
  show ?thesis
    using h c content_type_rejected_before_parse[OF h, of sample_externals sample_world sample_externals]
    by simp
qed

text \<open>
  C6. A request to either CSV endpoint whose bytes parse into a table without rows fails
  with \<^verbatim>\<open>HTTPException(400)\<close> and the empty-dataset detail, whatever the table's columns.
\<close>

theorem empty_table_rejected:
  assumes "content_type upload \<in> set allowed_content_types"
    and "read_csv ext (file_bytes upload) = Inr df"
    and "df_rows df = []"
  shows "fst (quality_from_csv ext upload w) = Inl (HTTPException 400 detail_empty)
     \<and> fst (quality_flags_from_csv ext upload w) = Inl (HTTPException 400 detail_empty)"
proof -
  have e: "df_empty df" using assms(3) by (simp add: df_empty_def)
  show ?thesis
    by (simp add: qfc_empty[OF assms(1,2) e] qffc_empty[OF assms(1,2) e])
qed

theorem empty_table_rejected_witness:
  "content_type (sample_upload\<lparr>file_bytes := ''a,b''\<rparr>) \<in> set allowed_content_types
   \<and> read_csv sample_externals (file_bytes (sample_upload\<lparr>file_bytes := ''a,b''\<rparr>))
       = Inr \<lparr>df_columns = [''a'', ''b''], df_rows = []\<rparr>
   \<and> df_rows \<lparr>df_columns = [''a'', ''b''], df_rows = []\<rparr> = []
   \<and> fst (quality_from_csv sample_externals (sample_upload\<lparr>file_bytes := ''a,b''\<rparr>) sample_world)
       = Inl (HTTPException 400 detail_empty)
   \<and> fst (quality_flags_from_csv sample_externals (sample_upload\<lparr>file_bytes := ''a,b''\<rparr>)
          sample_world)
       = Inl (HTTPException 400 detail_empty)"
proof -
  have h1: "content_type (sample_upload\<lparr>file_bytes := ''a,b''\<rparr>) \<in> set allowed_content_types"
    by (simp add: sample_upload_def allowed_content_types_def)
  have h2: "read_csv sample_externals (file_bytes (sample_upload\<lparr>file_bytes := ''a,b''\<rparr>))
       = Inr \<lparr>df_columns = [''a'', ''b''], df_rows = []\<rparr>"
    by (simp add: sample_externals_def)
  have h3: "df_rows \<lparr>df_columns = [''a'', ''b''], df_rows = []\<rparr> = []" by simp
  show ?thesis
    using h1 h2 h3 empty_table_rejected[OF h1 h2 h3, of sample_world] by simp
qed

text \<open>
  C7. On each of the three ingestion failures (content type not recognised, parser raised,
  parsed table empty), either CSV endpoint fails with \<^verbatim>\<open>HTTPException(400)\<close> after handing
  the logger exactly one record: its status is \<open>error\<close>, its latency is the time between
  the first two clock readings of the request, times 1000, and its formatted form has the
  keys endpoint, status, latency_ms, timestamp and request_id only:
  \<open>ok_for_model\<close>, \<open>n_rows\<close> and \<open>n_cols\<close> are left out, not written as null.
\<close>

theorem ingestion_failure_logged_once:
  assumes "content_type upload \<notin> set allowed_content_types
     \<or> (\<exists>exc. read_csv ext (file_bytes upload) = Inl exc)
     \<or> (\<exists>df. read_csv ext (file_bytes upload) = Inr df \<and> df_empty df)"
  shows "(\<exists>d. fst (quality_from_csv ext upload w) = Inl (HTTPException 400 d))
     \<and> handled (snd (quality_from_csv ext upload w))
         = handled w @ [error_record ''/quality-from-csv'' w]
     \<and> (\<exists>d. fst (quality_flags_from_csv ext upload w) = Inl (HTTPException 400 d))
     \<and> handled (snd (quality_flags_from_csv ext upload w))
         = handled w @ [error_record ''/quality-flags-from-csv'' w]
     \<and> status (error_record ep w) = ''error''
     \<and> rec_latency_ms (error_record ep w)
         = fmul (fsub (clock w (Suc (ticks w))) (clock w (ticks w))) (flit 1000)
     \<and> format_record ts (error_record ep w) =
         [(''endpoint'', JStr ep), (''status'', JStr ''error''),
          (''latency_ms'', JFloat (rec_latency_ms (error_record ep w))),
          (''timestamp'', JStr (ts @ ''Z'')), (''request_id'', JStr (request_id_var w))]"
proof -
  have rec: "status (error_record ep w) = ''error''"
    "rec_latency_ms (error_record ep w)
       = fmul (fsub (clock w (Suc (ticks w))) (clock w (ticks w))) (flit 1000)"
    by (simp_all add: error_record_def)
  have fmt: "format_record ts (error_record ep w) =
         [(''endpoint'', JStr ep), (''status'', JStr ''error''),
          (''latency_ms'', JFloat (rec_latency_ms (error_record ep w))),
          (''timestamp'', JStr (ts @ ''Z'')), (''request_id'', JStr (request_id_var w))]"
    by (simp add: format_error_record rec)
  have "(\<exists>d. fst (quality_from_csv ext upload w) = Inl (HTTPException 400 d))
     \<and> handled (snd (quality_from_csv ext upload w))
         = handled w @ [error_record ''/quality-from-csv'' w]
     \<and> (\<exists>d. fst (quality_flags_from_csv ext upload w) = Inl (HTTPException 400 d))
     \<and> handled (snd (quality_flags_from_csv ext upload w))
         = handled w @ [error_record ''/quality-flags-from-csv'' w]"
  proof (cases rule: ingest_cases[where upload = upload and ext = ext])
    case content_type
    then show ?thesis by (simp add: qfc_content_type qffc_content_type)
  next
    case (parse exc)
    then show ?thesis by (simp add: qfc_parse_failure qffc_parse_failure)
  next
    case (empty df)
    then show ?thesis by (simp add: qfc_empty qffc_empty)
  next
    case (table df)
    then show ?thesis using assms by simp
  qed
  then show ?thesis using rec fmt by (simp only: simp_thms)
qed

theorem ingestion_failure_logged_once_witness:
  "read_csv sample_externals (file_bytes (sample_upload\<lparr>file_bytes := []\<rparr>))
     = Inl ''No columns to parse from file''
   \<and> fst (quality_from_csv sample_externals (sample_upload\<lparr>file_bytes := []\<rparr>) sample_world)
       = Inl (HTTPException 400 (detail_read_prefix @ ''No columns to parse from file''))
   \<and> handled (snd (quality_from_csv sample_externals (sample_upload\<lparr>file_bytes := []\<rparr>)
        sample_world))
       = [\<lparr>endpoint = ''/quality-from-csv'', status = ''error'', rec_latency_ms = 125,
           rec_ok_for_model = None, rec_n_rows = None, rec_n_cols = None,
           request_id = ''unknown''\<rparr>]
   \<and> handled (snd (quality_flags_from_csv sample_externals (sample_upload\<lparr>file_bytes := []\<rparr>)
        sample_world))
       = [\<lparr>endpoint = ''/quality-flags-from-csv'', status = ''error'', rec_latency_ms = 125,
           rec_ok_for_model = None, rec_n_rows = None, rec_n_cols = None,
           request_id = ''unknown''\<rparr>]
   \<and> format_record ''2026-01-01T00:00:00'' (error_record ''/quality-from-csv'' sample_world)
       = [(''endpoint'', JStr ''/quality-from-csv''), (''status'', JStr ''error''),
          (''latency_ms'', JFloat 125), (''timestamp'', JStr ''2026-01-01T00:00:00Z''),
          (''request_id'', JStr ''unknown'')]"
proof -
  have p: "read_csv sample_externals (file_bytes (sample_upload\<lparr>file_bytes := []\<rparr>))
      = Inl ''No columns to parse from file''"
    by (simp add: sample_externals_def)
  then have h: "content_type (sample_upload\<lparr>file_bytes := []\<rparr>) \<notin> set allowed_content_types
     \<or> (\<exists>exc. read_csv sample_externals (file_bytes (sample_upload\<lparr>file_bytes := []\<rparr>)) = Inl exc)
     \<or> (\<exists>df. read_csv sample_externals (file_bytes (sample_upload\<lparr>file_bytes := []\<rparr>)) = Inr df
            \<and> df_empty df)"
    by blast
  have r: "error_record ep sample_world
      = \<lparr>endpoint = ep, status = ''error'', rec_latency_ms = 125,
           rec_ok_for_model = None, rec_n_rows = None, rec_n_cols = None,
           request_id = ''unknown''\<rparr>" for ep
    by code_simp
  have w: "handled sample_world = []" "request_id_var sample_world = ''unknown''"
    by (simp_all add: sample_world_def)
  have d: "fst (quality_from_csv sample_externals (sample_upload\<lparr>file_bytes := []\<rparr>) sample_world)
       = Inl (HTTPException 400 (detail_read_prefix @ ''No columns to parse from file''))"
    by (rule arg_cong[where f = fst, OF qfc_parse_failure[OF _ p], simplified])
      (simp add: sample_upload_def allowed_content_types_def)
  show ?thesis
    using p d r w
      ingestion_failure_logged_once[OF h, of sample_world "''/quality-from-csv''"
        "''2026-01-01T00:00:00''"]
    by simp
qed

text \<open>
  C8 (the code at a summary without dimension attributes). \<^verbatim>\<open>/quality-from-csv\<close> falls back
  to the table's own dimensions, in the response and in the logged record;
  \<^verbatim>\<open>/quality-flags-from-csv\<close> reads \<^verbatim>\<open>summary.n_rows\<close> directly, raises
  \<^verbatim>\<open>AttributeError\<close> and logs nothing.
\<close>

theorem flags_endpoint_no_shape_fallback:
  "isl (fst (quality_flags_from_csv bare_summary_externals sample_upload sample_world))
   \<and> projl (fst (quality_flags_from_csv bare_summary_externals sample_upload sample_world))
       = AttributeError ''n_rows''
   \<and> handled (snd (quality_flags_from_csv bare_summary_externals sample_upload sample_world)) = []
   \<and> \<not> isl (fst (quality_from_csv bare_summary_externals sample_upload sample_world))
   \<and> the (dataset_shape (projr (fst (quality_from_csv bare_summary_externals sample_upload
        sample_world)))) ''n_rows'' = Some 1
   \<and> the (dataset_shape (projr (fst (quality_from_csv bare_summary_externals sample_upload
        sample_world)))) ''n_cols'' = Some 2
   \<and> map (\<lambda>r. (rec_n_rows r, rec_n_cols r))
        (handled (snd (quality_from_csv bare_summary_externals sample_upload sample_world)))
       = [(Some 1, Some 2)]"
  by code_simp

lemma qffc_flags_restriction:
  assumes "fst (quality_flags_from_csv ext upload w) = Inr r"
    and "read_csv ext (file_bytes upload) = Inr df"
  shows "flags_only r = flags_bool_of (flags_all_of ext df)"
proof (cases rule: ingest_cases[where upload = upload and ext = ext])
  case content_type
  then show ?thesis using assms by (simp add: qffc_content_type)
next
  case (parse exc)
  then show ?thesis using assms by simp
next
  case (empty df')
  then show ?thesis using assms by (simp add: qffc_empty)
next
  case (table df')
  then have table: "content_type upload \<in> set allowed_content_types"
      "read_csv ext (file_bytes upload) = Inr df" "\<not> df_empty df"
    using assms(2) by simp_all
  show ?thesis
  proof (cases "summary_n_rows (summarize_dataset ext df) = None
         \<or> summary_n_cols (summarize_dataset ext df) = None")
    case True
    then show ?thesis using assms(1) qffc_no_attribute(1)[OF table True, of w] by auto
  next
    case False
    then obtain nr nc where "summary_n_rows (summarize_dataset ext df) = Some nr"
      "summary_n_cols (summarize_dataset ext df) = Some nc" by auto
    then have "r = \<lparr>flags_only = flags_bool_of (flags_all_of ext df)\<rparr>"
      using assms(1) qffc_success[OF table, of nr nc w] by simp
    then show ?thesis by simp
  qed
qed

lemma numeric_score_filtered:
  assumes "score_is_numeric flags_all"
  shows "flags_bool_of flags_all ''quality_score'' = None"
  using assms
  by (auto simp: score_is_numeric_def flags_bool_of_def split: option.splits pyval.splits)

text \<open>
  C9. A successful request to \<^verbatim>\<open>/quality-flags-from-csv\<close>, the analysis providing
  \<open>quality_score\<close> as the numeric field it is contracted to be: the returned flags have no
  \<open>quality_score\<close> key and are exactly the boolean-tagged entries of the analysis' flags,
  with their values (a key is returned with a value if and only if the analysis maps it to
  that boolean). The response carries the flags and nothing else: no score, no verdict.
\<close>

theorem flags_endpoint_never_returns_score:
  assumes "fst (quality_flags_from_csv ext upload w) = Inr r"
    and "read_csv ext (file_bytes upload) = Inr df"
    and "score_is_numeric (flags_all_of ext df)"
  shows "flags_only r ''quality_score'' = None
     \<and> flags_only r = flags_bool_of (flags_all_of ext df)
     \<and> (\<forall>k b. (flags_only r k = Some b) = (flags_all_of ext df k = Some (VBool b)))
     \<and> r = \<lparr>flags_only = flags_bool_of (flags_all_of ext df)\<rparr>"
proof -
  have r: "flags_only r = flags_bool_of (flags_all_of ext df)"
    by (rule qffc_flags_restriction[OF assms(1,2)])
  have n: "flags_only r ''quality_score'' = None"
    using numeric_score_filtered[OF assms(3)] by (simp add: r)
  have e: "r = \<lparr>flags_only = flags_bool_of (flags_all_of ext df)\<rparr>"
    using r by (cases r) simp
  show ?thesis
    using r n e flags_bool_of_iff[of "flags_all_of ext df"] by simp
qed

theorem flags_endpoint_never_returns_score_witness:
  "fst (quality_flags_from_csv sample_externals sample_upload sample_world)
     = Inr (projr (fst (quality_flags_from_csv sample_externals sample_upload sample_world)))
   \<and> read_csv sample_externals (file_bytes sample_upload)
       = Inr \<lparr>df_columns = [''a'', ''b''], df_rows = [[VInt 1, VInt 2]]\<rparr>
   \<and> score_is_numeric (flags_all_of sample_externals
        \<lparr>df_columns = [''a'', ''b''], df_rows = [[VInt 1, VInt 2]]\<rparr>)
   \<and> flags_only (projr (fst (quality_flags_from_csv sample_externals sample_upload sample_world)))
        ''quality_score'' = None
   \<and> flags_only (projr (fst (quality_flags_from_csv sample_externals sample_upload sample_world)))
        ''max_missing_share'' = None
   \<and> flags_only (projr (fst (quality_flags_from_csv sample_externals sample_upload sample_world)))
        ''too_few_rows'' = Some True
   \<and> flags_only (projr (fst (quality_flags_from_csv sample_externals sample_upload sample_world)))
        ''too_many_missing'' = Some False"
proof -
  have "\<not> isl (fst (quality_flags_from_csv sample_externals sample_upload sample_world))"
    by code_simp
  then have h1: "fst (quality_flags_from_csv sample_externals sample_upload sample_world)
     = Inr (projr (fst (quality_flags_from_csv sample_externals sample_upload sample_world)))"
    by simp
  have h2: "read_csv sample_externals (file_bytes sample_upload)
       = Inr \<lparr>df_columns = [''a'', ''b''], df_rows = [[VInt 1, VInt 2]]\<rparr>"
    by (simp add: sample_externals_def sample_upload_def)
  have h3: "score_is_numeric (flags_all_of sample_externals
        \<lparr>df_columns = [''a'', ''b''], df_rows = [[VInt 1, VInt 2]]\<rparr>)"
    by (simp add: score_is_numeric_def flags_all_of_def sample_externals_def sample_flags_all_def)
  have v: "flags_all_of sample_externals \<lparr>df_columns = [''a'', ''b''],
        df_rows = [[VInt 1, VInt 2]]\<rparr> = sample_flags_all"
    by (simp add: flags_all_of_def sample_externals_def)
  have f: "flags_bool_of sample_flags_all ''max_missing_share'' = None"
    "flags_bool_of sample_flags_all ''too_few_rows'' = Some True"
    "flags_bool_of sample_flags_all ''too_many_missing'' = Some False"
    by (simp_all add: flags_bool_of_def sample_flags_all_def)
  show ?thesis
    using h1 h2 h3 f flags_endpoint_never_returns_score[OF h1 h2 h3] by (simp add: v)
qed

text \<open>
  C10. When the parsed table is not empty and the analysis' flags have no
  \<open>quality_score\<close> key, \<^verbatim>\<open>/quality-from-csv\<close> succeeds with the score 0.0,
  \<open>ok_for_model = false\<close> and the not-ready message.
\<close>

theorem missing_score_defaults_to_zero:
  assumes "content_type upload \<in> set allowed_content_types"
    and "read_csv ext (file_bytes upload) = Inr df" and "\<not> df_empty df"
    and "flags_all_of ext df ''quality_score'' = None"
  shows "\<exists>r. fst (quality_from_csv ext upload w) = Inr r
     \<and> quality_score r = Finite 0 \<and> \<not> ok_for_model r \<and> message r = csv_msg_not_ok"
proof -
  have s: "py_float ext (score_entry (flags_all_of ext df)) = Inr (Finite 0)"
    using assms(4) by (simp add: score_entry_def)
  have c: "clamp_unit (Finite 0) = 0" by (simp add: clamp_unit_def spec_clamp_def)
  have n: "\<not> flit (7 / 10) \<le> (0::rat)" by code_simp
  show ?thesis
    using qfc_success[OF assms(1-3) s, of w] c n by simp
qed

theorem missing_score_defaults_to_zero_witness:
  "content_type sample_upload \<in> set allowed_content_types
   \<and> read_csv no_score_externals (file_bytes sample_upload)
       = Inr \<lparr>df_columns = [''a'', ''b''], df_rows = [[VInt 1, VInt 2]]\<rparr>
   \<and> \<not> df_empty \<lparr>df_columns = [''a'', ''b''], df_rows = [[VInt 1, VInt 2]]\<rparr>
   \<and> flags_all_of no_score_externals \<lparr>df_columns = [''a'', ''b''], df_rows = [[VInt 1, VInt 2]]\<rparr>
        ''quality_score'' = None
   \<and> (\<exists>r. fst (quality_from_csv no_score_externals sample_upload sample_world) = Inr r
     \<and> quality_score r = Finite 0 \<and> \<not> ok_for_model r \<and> message r = csv_msg_not_ok)"
proof -
  have h1: "content_type sample_upload \<in> set allowed_content_types"
    by (simp add: sample_upload_def allowed_content_types_def)
  have h2: "read_csv no_score_externals (file_bytes sample_upload)
       = Inr \<lparr>df_columns = [''a'', ''b''], df_rows = [[VInt 1, VInt 2]]\<rparr>"
    by (simp add: no_score_externals_def sample_externals_def sample_upload_def)
  have h3: "\<not> df_empty \<lparr>df_columns = [''a'', ''b''], df_rows = [[VInt 1, VInt 2]]\<rparr>"
    by (simp add: df_empty_def)
  have h4: "flags_all_of no_score_externals
      \<lparr>df_columns = [''a'', ''b''], df_rows = [[VInt 1, VInt 2]]\<rparr> ''quality_score'' = None"
    by (simp add: flags_all_of_def no_score_externals_def sample_externals_def)
  show ?thesis
    using h1 h2 h3 h4 missing_score_defaults_to_zero[OF h1 h2 h3 h4, of sample_world] by blast
qed

end
